theory Spec2Isabelle
  imports Main
begin

section \<open>Python values, errors and stored answers\<close>

text \<open>
  The adapter of \<^verbatim>\<open>gptcache/adapter/openai.py\<close> handles dynamically typed values:
  keyword dictionaries, response dictionaries, strings and byte strings. They are
  embedded as one datatype. A \<^verbatim>\<open>str\<close> and a \<^verbatim>\<open>bytes\<close> are both character lists
  (a \<^typ>\<open>char\<close> is one byte, so text is restricted to code points below 256); a
  \<^verbatim>\<open>dict\<close> is an association list in insertion order.
\<close>

datatype pyval =
    PNone
  | PBool bool
  | PInt int
  | PStr string
  | PBytes string
  | PList "pyval list"
  | PDict "(string \<times> pyval) list"

text \<open>
  An f-string is kept as its parts: \<open>Lit s\<close> is literal text and \<open>Fmt v\<close> is the
  place where the value \<open>v\<close> is formatted into the message.
\<close>

datatype fpart = Lit string | Fmt pyval

text \<open>
  Every exception the modelled code can raise. \<open>AttributeError\<close> is the explicit
  \<^verbatim>\<open>raise AttributeError(...)\<close> of the image builder with its message;
  \<open>NoAttribute a\<close> is the \<^verbatim>\<open>AttributeError\<close> Python raises for a missing
  attribute \<open>a\<close>; \<open>External\<close> is a failure raised inside a collaborator that is
  not part of this file (codec, orchestration core, backend).
\<close>

datatype error =
    AttributeError "fpart list"
  | NoAttribute string
  | TypeError
  | ValueError
  | UnicodeEncodeError
  | External string

text \<open>
  \<^verbatim>\<open>d.get(key)\<close> on a value (\<^verbatim>\<open>None\<close> for a missing key; only a dict has
  \<^verbatim>\<open>get\<close>), and \<^verbatim>\<open>len\<close>.
\<close>

fun dict_get :: "pyval \<Rightarrow> string \<Rightarrow> error + pyval" where
  "dict_get (PDict kvs) k = Inr (case map_of kvs k of None \<Rightarrow> PNone | Some v \<Rightarrow> v)"
| "dict_get _ k = Inl (NoAttribute ''get'')"

fun py_len :: "pyval \<Rightarrow> error + int" where
  "py_len (PStr s) = Inr (int (length s))"
| "py_len (PBytes s) = Inr (int (length s))"
| "py_len (PList xs) = Inr (int (length xs))"
| "py_len (PDict kvs) = Inr (int (length kvs))"
| "py_len _ = Inl TypeError"

text \<open>\<^verbatim>\<open>gptcache.manager.scalar_data.base\<close>: the kinds of a stored answer (\<open>DataType_STR\<close> is \<^verbatim>\<open>DataType.STR\<close>).\<close>

datatype DataType = DataType_STR | IMAGE_BASE64 | IMAGE_URL

datatype Answer = Answer pyval DataType

text \<open>
  \<^verbatim>\<open>update_cache_func\<close> is the storage hook handed in by the orchestration core.
  Its effect is recorded: the state threaded through every callback is the list of
  answers the hook has been invoked with, oldest first.
\<close>

type_synonym stored = "Answer list"

definition update_cache_func :: "Answer \<Rightarrow> stored \<Rightarrow> stored" where
  "update_cache_func a st = st @ [a]"


section \<open>ChatCompletion: the cache-update callback and its generator\<close>

text \<open>
  A live chat response is either a response object or an iterator of chunks. An
  iterator over a finite stream is the list of chunks it has yet to produce.
\<close>

datatype llm_data = Obj pyval | Iter "pyval list"

text \<open>
  The generator object made by \<^verbatim>\<open>hook_openai_data(it)\<close>: the wrapped iterator, the
  local \<^verbatim>\<open>total_answer\<close>, and whether the generator body has run to its end (or
  was closed).
\<close>

record generator =
  it :: "pyval list"
  total_answer :: string
  finished :: bool

definition hook_openai_data :: "pyval list \<Rightarrow> generator" where
  "hook_openai_data upstream = \<lparr>it = upstream, total_answer = [], finished = False\<rparr>"

datatype pulled = Yield pyval | StopIteration | Raise error

text \<open>
  One \<^verbatim>\<open>next()\<close> on the generator. The body resumes inside the \<^verbatim>\<open>for\<close> loop.
  With another item it evaluates \<^verbatim>\<open>total_answer += get_stream_message_from_openai_answer(item)\<close>
  and then yields the item. The helper (of \<^verbatim>\<open>gptcache.utils.response\<close>) is a
  parameter that returns a value or raises; adding anything but a \<^verbatim>\<open>str\<close> to the
  \<^verbatim>\<open>str\<close> \<^verbatim>\<open>total_answer\<close> is a \<^verbatim>\<open>TypeError\<close>. Either exception leaves the
  generator before the item is yielded and before anything is stored, and ends it.
  With the wrapped iterator exhausted the body leaves the loop, calls
  \<^verbatim>\<open>update_cache_func(Answer(total_answer, DataType.STR))\<close> and ends.
\<close>

definition gen_next ::
  "(pyval \<Rightarrow> error + pyval) \<Rightarrow> generator \<Rightarrow> stored \<Rightarrow> pulled \<times> generator \<times> stored" where
  "gen_next get_stream_message_from_openai_answer g st =
     (if finished g then (StopIteration, g, st)
      else case it g of
        [] \<Rightarrow> (StopIteration, g\<lparr>finished := True\<rparr>,
                update_cache_func (Answer (PStr (total_answer g)) DataType_STR) st)
      | item # rest \<Rightarrow>
          (case get_stream_message_from_openai_answer item of
             Inl e \<Rightarrow> (Raise e, g\<lparr>it := rest, finished := True\<rparr>, st)
           | Inr (PStr s) \<Rightarrow>
               (Yield item, g\<lparr>it := rest, total_answer := total_answer g @ s\<rparr>, st)
           | Inr _ \<Rightarrow> (Raise TypeError, g\<lparr>it := rest, finished := True\<rparr>, st)))"

text \<open>
  \<^verbatim>\<open>generator.close()\<close>, which is also what happens when an abandoned generator
  is collected: \<^verbatim>\<open>GeneratorExit\<close> is raised at the suspended \<^verbatim>\<open>yield\<close> and leaves
  the body, so the statement after the loop does not run.
\<close>

definition gen_close :: "generator \<Rightarrow> generator" where
  "gen_close g = g\<lparr>finished := True\<rparr>"

text \<open>
  What a consumer has seen when it stops pulling: the chunks it received, the
  exception a \<^verbatim>\<open>next()\<close> raised (if one did), the generator, and the answers stored.
\<close>

record consumed =
  yielded :: "pyval list"
  raised :: "error option"
  gen_after :: generator
  stored_after :: stored

text \<open>The consumer pulls at most \<open>k\<close> elements (\<^verbatim>\<open>itertools.islice(gen, k)\<close>).\<close>

fun pull ::
  "(pyval \<Rightarrow> error + pyval) \<Rightarrow> nat \<Rightarrow> generator \<Rightarrow> stored \<Rightarrow> consumed" where
  "pull f 0 g st = \<lparr>yielded = [], raised = None, gen_after = g, stored_after = st\<rparr>"
| "pull f (Suc k) g st =
     (case gen_next f g st of
        (StopIteration, g', st') \<Rightarrow>
          \<lparr>yielded = [], raised = None, gen_after = g', stored_after = st'\<rparr>
      | (Raise e, g', st') \<Rightarrow>
          \<lparr>yielded = [], raised = Some e, gen_after = g', stored_after = st'\<rparr>
      | (Yield x, g', st') \<Rightarrow>
          (pull f k g' st')\<lparr>yielded := x # yielded (pull f k g' st')\<rparr>)"

text \<open>
  The consumer pulls until \<^verbatim>\<open>StopIteration\<close> or an exception
  (\<^verbatim>\<open>for chunk in gen\<close>).
\<close>

function drain ::
  "(pyval \<Rightarrow> error + pyval) \<Rightarrow> generator \<Rightarrow> stored \<Rightarrow> consumed" where
  "drain f g st =
     (case gen_next f g st of
        (StopIteration, g', st') \<Rightarrow>
          \<lparr>yielded = [], raised = None, gen_after = g', stored_after = st'\<rparr>
      | (Raise e, g', st') \<Rightarrow>
          \<lparr>yielded = [], raised = Some e, gen_after = g', stored_after = st'\<rparr>
      | (Yield x, g', st') \<Rightarrow>
          (drain f g' st')\<lparr>yielded := x # yielded (drain f g' st')\<rparr>)"
  by pat_completeness auto
termination
  by (relation "measure (\<lambda>(f, g, st). length (it g))")
     (auto simp: gen_next_def split: if_splits list.splits sum.splits pyval.splits)

declare drain.simps [simp del]

text \<open>
  What the callback hands back: the object it was given, or a new generator.
\<close>

datatype chat_return = Returned llm_data | Hooked generator

text \<open>
  \<^verbatim>\<open>ChatCompletion._update_cache_callback\<close>.
  \<open>get_message_from_openai_answer\<close> (of \<^verbatim>\<open>gptcache.utils.response\<close>) is a
  parameter: the text of the answer.
\<close>

definition ChatCompletion_update_cache_callback ::
  "(pyval \<Rightarrow> string) \<Rightarrow> llm_data \<Rightarrow> stored \<Rightarrow> chat_return \<times> stored" where
  "ChatCompletion_update_cache_callback get_message_from_openai_answer llm st =
     (case llm of
        Obj d \<Rightarrow>
          (Returned (Obj d),
           update_cache_func (Answer (PStr (get_message_from_openai_answer d)) DataType_STR) st)
      | Iter upstream \<Rightarrow> (Hooked (hook_openai_data upstream), st))"


section \<open>The cache-update callbacks of the other modalities\<close>

text \<open>
  \<^verbatim>\<open>Completion._update_cache_callback\<close>; \<open>get_text_from_openai_answer\<close> is a
  parameter.
\<close>

definition Completion_update_cache_callback ::
  "(pyval \<Rightarrow> string) \<Rightarrow> pyval \<Rightarrow> stored \<Rightarrow> pyval \<times> stored" where
  "Completion_update_cache_callback get_text_from_openai_answer llm_data st =
     (llm_data,
      update_cache_func (Answer (PStr (get_text_from_openai_answer llm_data)) DataType_STR) st)"

text \<open>
  The \<^verbatim>\<open>update_cache_callback\<close> closures of \<^verbatim>\<open>Audio.transcribe\<close> and
  \<^verbatim>\<open>Audio.translate\<close>; \<open>get_audio_text_from_openai_answer\<close> is a parameter.
\<close>

definition Audio_transcribe_update_cache_callback ::
  "(pyval \<Rightarrow> string) \<Rightarrow> pyval \<Rightarrow> stored \<Rightarrow> pyval \<times> stored" where
  "Audio_transcribe_update_cache_callback get_audio_text_from_openai_answer llm_data st =
     (llm_data,
      update_cache_func
        (Answer (PStr (get_audio_text_from_openai_answer llm_data)) DataType_STR) st)"

definition Audio_translate_update_cache_callback ::
  "(pyval \<Rightarrow> string) \<Rightarrow> pyval \<Rightarrow> stored \<Rightarrow> pyval \<times> stored" where
  "Audio_translate_update_cache_callback get_audio_text_from_openai_answer llm_data st =
     (llm_data,
      update_cache_func
        (Answer (PStr (get_audio_text_from_openai_answer llm_data)) DataType_STR) st)"

text \<open>
  \<^verbatim>\<open>Moderation._update_cache_callback\<close>; \<open>json_dumps\<close> is
  \<^verbatim>\<open>json.dumps(_, indent=4)\<close>, a parameter.
\<close>

definition Moderation_update_cache_callback ::
  "(pyval \<Rightarrow> string) \<Rightarrow> pyval \<Rightarrow> stored \<Rightarrow> pyval \<times> stored" where
  "Moderation_update_cache_callback json_dumps llm_data st =
     (llm_data, update_cache_func (Answer (PStr (json_dumps llm_data)) DataType_STR) st)"

text \<open>
  \<^verbatim>\<open>str.encode("ascii")\<close>: the same bytes, or \<^verbatim>\<open>UnicodeEncodeError\<close> when a
  character is not ASCII.
\<close>

definition encode_ascii :: "string \<Rightarrow> error + string" where
  "encode_ascii s =
     (if list_all (\<lambda>c. (of_char c :: nat) < 128) s then Inr s else Inl UnicodeEncodeError)"

text \<open>
  The \<^verbatim>\<open>update_cache_callback\<close> closure of \<^verbatim>\<open>Image.create\<close>, with the
  \<^verbatim>\<open>response_format\<close> it closes over as an argument.
  \<open>get_image_from_openai_b64\<close> and \<open>get_image_from_openai_url\<close> are parameters.
  With a \<^verbatim>\<open>response_format\<close> that is neither string the hook is not called.
\<close>

definition Image_update_cache_callback ::
  "(pyval \<Rightarrow> pyval) \<Rightarrow> (pyval \<Rightarrow> pyval) \<Rightarrow> pyval \<Rightarrow> pyval \<Rightarrow> stored
     \<Rightarrow> error + pyval \<times> stored" where
  "Image_update_cache_callback get_image_from_openai_b64 get_image_from_openai_url
       response_format llm_data st =
     (if response_format = PStr ''b64_json'' then
        (case get_image_from_openai_b64 llm_data of
           PStr s \<Rightarrow>
             (case encode_ascii s of
                Inl e \<Rightarrow> Inl e
              | Inr b \<Rightarrow> Inr (llm_data, update_cache_func (Answer (PBytes b) IMAGE_BASE64) st))
         | img_b64 \<Rightarrow> Inr (llm_data, update_cache_func (Answer img_b64 IMAGE_BASE64) st))
      else if response_format = PStr ''url'' then
        Inr (llm_data,
             update_cache_func (Answer (get_image_from_openai_url llm_data) IMAGE_URL) st)
      else Inr (llm_data, st))"

text \<open>The kind of a stored answer (\<^verbatim>\<open>Answer.answer_type\<close>).\<close>

fun answer_type :: "Answer \<Rightarrow> DataType" where
  "answer_type (Answer content kind) = kind"


section \<open>Token accounting and the chat builders\<close>

text \<open>
  \<open>token_counter\<close> (of \<^verbatim>\<open>gptcache.utils.token\<close>) is a parameter \<open>tc\<close> that
  returns a count or raises. Every call of it is recorded: the second state component
  below is the list of values the tokenizer has been invoked on, oldest first.
\<close>

type_synonym tokenized = "pyval list"

definition token_counter ::
  "(pyval \<Rightarrow> error + int) \<Rightarrow> pyval \<Rightarrow> tokenized \<Rightarrow> (error + int) \<times> tokenized" where
  "token_counter tc v tk = (tc v, tk @ [v])"

text \<open>What a \<^verbatim>\<open>for\<close> loop iterates over, or \<^verbatim>\<open>TypeError\<close>.\<close>

fun py_iter :: "pyval \<Rightarrow> error + pyval list" where
  "py_iter (PList xs) = Inr xs"
| "py_iter (PStr s) = Inr (map (\<lambda>c. PStr [c]) s)"
| "py_iter (PBytes s) = Inr (map (\<lambda>c. PInt (of_char c)) s)"
| "py_iter (PDict kvs) = Inr (map (\<lambda>kv. PStr (fst kv)) kvs)"
| "py_iter _ = Inl TypeError"

text \<open>
  The inner loop of \<^verbatim>\<open>_num_tokens_from_messages\<close>, over \<^verbatim>\<open>message.items()\<close>;
  it ends at the first value the tokenizer raises on.
\<close>

fun items_loop ::
  "(pyval \<Rightarrow> error + int) \<Rightarrow> (string \<times> pyval) list \<Rightarrow> int \<Rightarrow> tokenized
     \<Rightarrow> (error + int) \<times> tokenized" where
  "items_loop tc [] num_tokens tk = (Inr num_tokens, tk)"
| "items_loop tc ((key, v) # rest) num_tokens tk =
     (case token_counter tc v tk of
        (Inl e, tk') \<Rightarrow> (Inl e, tk')
      | (Inr n, tk') \<Rightarrow>
          items_loop tc rest
            (if key = ''name'' then num_tokens + n + 1 else num_tokens + n) tk')"

text \<open>The outer loop, over the messages; a message that is no dict has no \<^verbatim>\<open>items\<close>.\<close>

fun messages_loop ::
  "(pyval \<Rightarrow> error + int) \<Rightarrow> pyval list \<Rightarrow> int \<Rightarrow> tokenized
     \<Rightarrow> (error + int) \<times> tokenized" where
  "messages_loop tc [] num_tokens tk = (Inr num_tokens, tk)"
| "messages_loop tc (message # rest) num_tokens tk =
     (case message of
        PDict kvs \<Rightarrow>
          (case items_loop tc kvs (num_tokens + 3) tk of
             (Inl e, tk') \<Rightarrow> (Inl e, tk')
           | (Inr n, tk') \<Rightarrow> messages_loop tc rest n tk')
      | _ \<Rightarrow> (Inl (NoAttribute ''items''), tk))"

text \<open>\<^verbatim>\<open>_num_tokens_from_messages\<close>.\<close>

definition num_tokens_from_messages ::
  "(pyval \<Rightarrow> error + int) \<Rightarrow> pyval \<Rightarrow> tokenized \<Rightarrow> (error + int) \<times> tokenized" where
  "num_tokens_from_messages tc messages tk =
     (case py_iter messages of
        Inl e \<Rightarrow> (Inl e, tk)
      | Inr ms \<Rightarrow>
          (case messages_loop tc ms 0 tk of
             (Inl e, tk') \<Rightarrow> (Inl e, tk')
           | (Inr num_tokens, tk') \<Rightarrow> (Inr (num_tokens + 3), tk')))"

text \<open>
  \<^verbatim>\<open>_construct_resp_from_cache\<close> and \<^verbatim>\<open>_construct_stream_resp_from_cache\<close>;
  \<open>now\<close> is the value of \<^verbatim>\<open>int(time.time())\<close>.
\<close>

definition construct_resp_from_cache :: "pyval \<Rightarrow> pyval \<Rightarrow> int \<Rightarrow> pyval" where
  "construct_resp_from_cache return_message saved_token now =
     PDict
       [(''gptcache'', PBool True),
        (''saved_token'', saved_token),
        (''choices'',
           PList
             [PDict
                [(''message'',
                    PDict [(''role'', PStr ''assistant''), (''content'', return_message)]),
                 (''finish_reason'', PStr ''stop''),
                 (''index'', PInt 0)]]),
        (''created'', PInt now),
        (''usage'',
           PDict
             [(''completion_tokens'', PInt 0), (''prompt_tokens'', PInt 0),
              (''total_tokens'', PInt 0)]),
        (''object'', PStr ''chat.completion'')]"

definition construct_stream_resp_from_cache :: "pyval \<Rightarrow> pyval \<Rightarrow> int \<Rightarrow> pyval" where
  "construct_stream_resp_from_cache return_message saved_token now =
     PList
       [PDict
          [(''choices'',
              PList
                [PDict
                   [(''delta'', PDict [(''role'', PStr ''assistant'')]),
                    (''finish_reason'', PNone), (''index'', PInt 0)]]),
           (''created'', PInt now),
           (''object'', PStr ''chat.completion.chunk'')],
        PDict
          [(''choices'',
              PList
                [PDict
                   [(''delta'', PDict [(''content'', return_message)]),
                    (''finish_reason'', PNone), (''index'', PInt 0)]]),
           (''created'', PInt now),
           (''object'', PStr ''chat.completion.chunk'')],
        PDict
          [(''gptcache'', PBool True),
           (''choices'',
              PList
                [PDict
                   [(''delta'', PDict []), (''finish_reason'', PStr ''stop''),
                    (''index'', PInt 0)]]),
           (''created'', PInt now),
           (''object'', PStr ''chat.completion.chunk''),
           (''saved_token'', saved_token)]]"

text \<open>Keyword arguments, \<^verbatim>\<open>dict.get\<close> and Python's truth value.\<close>

type_synonym kwargs = "string \<rightharpoonup> pyval"

definition kwargs_get :: "kwargs \<Rightarrow> string \<Rightarrow> pyval \<Rightarrow> pyval" where
  "kwargs_get kw k d = (case kw k of None \<Rightarrow> d | Some v \<Rightarrow> v)"

fun truthy :: "pyval \<Rightarrow> bool" where
  "truthy PNone = False"
| "truthy (PBool b) = b"
| "truthy (PInt i) = (i \<noteq> 0)"
| "truthy (PStr s) = (s \<noteq> [])"
| "truthy (PBytes s) = (s \<noteq> [])"
| "truthy (PList xs) = (xs \<noteq> [])"
| "truthy (PDict kvs) = (kvs \<noteq> [])"

text \<open>
  The \<^verbatim>\<open>cache_data_convert\<close> closure of \<^verbatim>\<open>ChatCompletion.create\<close>, with what it
  closes over as arguments: \<^verbatim>\<open>enable_token_counter\<close> and the keyword arguments.
\<close>

definition ChatCompletion_cache_data_convert ::
  "(pyval \<Rightarrow> error + int) \<Rightarrow> bool \<Rightarrow> kwargs \<Rightarrow> int \<Rightarrow> pyval \<Rightarrow> tokenized
     \<Rightarrow> (error + pyval) \<times> tokenized" where
  "ChatCompletion_cache_data_convert tc enable_token_counter kw now cache_data tk =
     (case
        (if enable_token_counter then
           (case num_tokens_from_messages tc (kwargs_get kw ''messages'' PNone) tk of
              (Inl e, tk1) \<Rightarrow> (Inl e, tk1)
            | (Inr input_token, tk1) \<Rightarrow>
                (case token_counter tc cache_data tk1 of
                   (Inl e, tk2) \<Rightarrow> (Inl e, tk2)
                 | (Inr output_token, tk2) \<Rightarrow>
                     (Inr (PList [PInt input_token, PInt output_token]), tk2)))
         else (Inr (PList [PInt 0, PInt 0]), tk))
      of
        (Inl e, tk') \<Rightarrow> (Inl e, tk')
      | (Inr saved_token, tk') \<Rightarrow>
          (if truthy (kwargs_get kw ''stream'' (PBool False)) then
             (Inr (construct_stream_resp_from_cache cache_data saved_token now), tk')
           else (Inr (construct_resp_from_cache cache_data saved_token now), tk')))"


section \<open>Moderation: the entry point and its retry\<close>

text \<open>
  \<^verbatim>\<open>adapt\<close> (of \<^verbatim>\<open>gptcache.adapter.adapter\<close>) is the orchestration core. It is a
  parameter: any function of the live-call handler, the builder, the extractor, the
  positional and the keyword arguments, over a state \<open>'w\<close> of its own (cache and
  backend), that returns a response or raises.
\<close>

type_synonym ('h, 'c, 'u, 'w) adapt =
  "'h \<Rightarrow> 'c \<Rightarrow> 'u \<Rightarrow> pyval list \<Rightarrow> kwargs \<Rightarrow> 'w \<Rightarrow> (error + pyval) \<times> 'w"

text \<open>
  \<^verbatim>\<open>expect_res_len\<close> of \<^verbatim>\<open>Moderation.create\<close>: 1, or the length of the
  \<^verbatim>\<open>input\<close> when that is a list.
\<close>

definition expect_res_len :: "kwargs \<Rightarrow> int" where
  "expect_res_len kw =
     (case kwargs_get kw ''input'' PNone of PList xs \<Rightarrow> int (length xs) | _ \<Rightarrow> 1)"

text \<open>\<^verbatim>\<open>Moderation._cache_data_convert\<close>; \<open>json_loads\<close> is a parameter.\<close>

definition Moderation_cache_data_convert ::
  "(pyval \<Rightarrow> error + pyval) \<Rightarrow> pyval \<Rightarrow> error + pyval" where
  "Moderation_cache_data_convert json_loads cache_data = json_loads cache_data"

text \<open>
  \<^verbatim>\<open>Moderation.create\<close>. \<open>fill_base_args\<close> (of \<^verbatim>\<open>BaseCacheLLM\<close>) and the
  class's \<open>llm_handler\<close> are parameters. Besides the outcome and the final state, the
  result lists the keyword arguments of every call of \<^verbatim>\<open>adapt\<close>, in order.
\<close>

definition Moderation_create ::
  "('h, pyval \<Rightarrow> error + pyval, pyval \<Rightarrow> stored \<Rightarrow> pyval \<times> stored, 'w) adapt
     \<Rightarrow> (kwargs \<Rightarrow> kwargs) \<Rightarrow> 'h \<Rightarrow> (pyval \<Rightarrow> error + pyval) \<Rightarrow> (pyval \<Rightarrow> string)
     \<Rightarrow> pyval list \<Rightarrow> kwargs \<Rightarrow> 'w \<Rightarrow> ((error + pyval) \<times> 'w) \<times> kwargs list" where
  "Moderation_create adapt fill_base_args llm_handler json_loads json_dumps args kwargs0 w =
     (let kwargs = fill_base_args kwargs0 in
      case adapt llm_handler (Moderation_cache_data_convert json_loads)
             (Moderation_update_cache_callback json_dumps) args kwargs w of
        (Inl e, w1) \<Rightarrow> ((Inl e, w1), [kwargs])
      | (Inr res, w1) \<Rightarrow>
          (case dict_get res ''results'' of
             Inl e \<Rightarrow> ((Inl e, w1), [kwargs])
           | Inr results \<Rightarrow>
               (case py_len results of
                  Inl e \<Rightarrow> ((Inl e, w1), [kwargs])
                | Inr n \<Rightarrow>
                    if n \<noteq> expect_res_len kwargs then
                      (adapt llm_handler (Moderation_cache_data_convert json_loads)
                         (Moderation_update_cache_callback json_dumps) args
                         (kwargs(''cache_skip'' \<mapsto> PBool True)) w1,
                       [kwargs, kwargs(''cache_skip'' \<mapsto> PBool True)])
                    else ((Inr res, w1), [kwargs]))))"

text \<open>The number of per-input results of a response.\<close>

definition results_len :: "pyval \<Rightarrow> error + int" where
  "results_len res =
     (case dict_get res ''results'' of Inl e \<Rightarrow> Inl e | Inr results \<Rightarrow> py_len results)"


section \<open>Image: the builder and the entry point\<close>

text \<open>
  What the builder touches outside itself: the files it can write, by path, and the
  clock. \<open>clock w n\<close> is what the \<open>n\<close>-th coming \<^verbatim>\<open>int(time.time())\<close> returns
  (the integer part of a float, so a number \<^verbatim>\<open>str\<close> can print).
\<close>

record world =
  files :: "string \<rightharpoonup> string"
  clock :: "nat \<Rightarrow> int"

definition time_time :: "world \<Rightarrow> int \<times> world" where
  "time_time w = (clock w 0, w\<lparr>clock := (\<lambda>n. clock w (Suc n))\<rparr>)"

text \<open>\<^verbatim>\<open>with open(path, "wb") as f: f.write(content)\<close>.\<close>

definition write_file :: "string \<Rightarrow> string \<Rightarrow> world \<Rightarrow> world" where
  "write_file path content w = w\<lparr>files := (files w)(path \<mapsto> content)\<rparr>"

text \<open>\<^verbatim>\<open>str\<close> of an integer: its decimal digits, with a sign when negative.\<close>

fun str_nat :: "nat \<Rightarrow> string" where
  "str_nat n =
     (if n < 10 then [''0123456789'' ! n]
      else str_nat (n div 10) @ [''0123456789'' ! (n mod 10)])"

declare str_nat.simps [simp del]

definition str_int :: "int \<Rightarrow> string" where
  "str_int i = (if i < 0 then CHR ''-'' # str_nat (nat (- i)) else str_nat (nat i))"

text \<open>\<^verbatim>\<open>s.split(sep)\<close> with a one-character separator.\<close>

fun split_on :: "char \<Rightarrow> string \<Rightarrow> string list" where
  "split_on sep [] = [[]]"
| "split_on sep (c # cs) =
     (if c = sep then [] # split_on sep cs
      else (case split_on sep cs of [] \<Rightarrow> [[c]] | p # ps \<Rightarrow> (c # p) # ps))"

text \<open>
  \<^verbatim>\<open>int(a)\<close> on a string, as CPython 3.11 converts it: whitespace around the
  number is skipped (the ASCII characters 9 to 13 and 32, and the two other
  whitespace characters below 256, which are first mapped to a space), then comes an
  optional sign, then decimal digits that single underscores may separate. More than
  \<open>max_str_digits\<close> digits (\<^verbatim>\<open>sys.int_info.default_max_str_digits\<close>) are refused.
  Anything else is a \<^verbatim>\<open>ValueError\<close>.
\<close>

definition is_space :: "char \<Rightarrow> bool" where
  "is_space c = ((of_char c :: nat) \<in> {9, 10, 11, 12, 13, 32, 133, 160})"

definition is_digit :: "char \<Rightarrow> bool" where
  "is_digit c = (48 \<le> (of_char c :: nat) \<and> (of_char c :: nat) \<le> 57)"

definition strip :: "string \<Rightarrow> string" where
  "strip s = rev (dropWhile is_space (rev (dropWhile is_space s)))"

fun underscores_single :: "string \<Rightarrow> bool" where
  "underscores_single (a # b # r) =
     ((a \<noteq> CHR ''_'' \<or> b \<noteq> CHR ''_'') \<and> underscores_single (b # r))"
| "underscores_single r = True"

definition max_str_digits :: nat where
  "max_str_digits = 4300"

definition digits_ok :: "string \<Rightarrow> bool" where
  "digits_ok r =
     (r \<noteq> [] \<and> is_digit (hd r) \<and> is_digit (last r)
      \<and> list_all (\<lambda>c. is_digit c \<or> c = CHR ''_'') r \<and> underscores_single r
      \<and> length (filter is_digit r) \<le> max_str_digits)"

definition digits_value :: "string \<Rightarrow> int" where
  "digits_value r = foldl (\<lambda>acc c. acc * 10 + (int (of_char c) - 48)) 0 (filter is_digit r)"

definition py_int :: "string \<Rightarrow> error + int" where
  "py_int a =
     (case strip a of
        [] \<Rightarrow> Inl ValueError
      | c # r \<Rightarrow>
          if c = CHR ''-'' then (if digits_ok r then Inr (- digits_value r) else Inl ValueError)
          else if c = CHR ''+'' then (if digits_ok r then Inr (digits_value r) else Inl ValueError)
          else if digits_ok (c # r) then Inr (digits_value (c # r))
          else Inl ValueError)"

text \<open>
  \<^verbatim>\<open>tuple(int(a) for a in size.split("x"))\<close>: the parts are converted from left
  to right and the first failure is raised. A \<^verbatim>\<open>bytes\<close> cannot be split by a
  \<^verbatim>\<open>str\<close>; the other values have no \<^verbatim>\<open>split\<close>.
\<close>

fun ints_of :: "string list \<Rightarrow> error + int list" where
  "ints_of [] = Inr []"
| "ints_of (a # rest) =
     (case py_int a of
        Inl e \<Rightarrow> Inl e
      | Inr i \<Rightarrow> (case ints_of rest of Inl e \<Rightarrow> Inl e | Inr others \<Rightarrow> Inr (i # others)))"

fun new_size_of :: "pyval \<Rightarrow> error + int list" where
  "new_size_of (PStr s) = ints_of (split_on (CHR ''x'') s)"
| "new_size_of (PBytes s) = Inl TypeError"
| "new_size_of _ = Inl (NoAttribute ''split'')"

text \<open>
  The libraries the builder calls are parameters: \<^verbatim>\<open>base64\<close>, the image codec
  (\<^verbatim>\<open>PIL\<close>) over its own image type \<open>'img\<close>, and \<^verbatim>\<open>os.path.abspath\<close>. A size is
  a tuple of integers, here a list.
\<close>

record 'img library =
  b64decode :: "pyval \<Rightarrow> error + string"
  b64encode :: "string \<Rightarrow> string"
  PILImage_open :: "string \<Rightarrow> error + 'img"
  img_size :: "'img \<Rightarrow> int list"
  img_resize :: "'img \<Rightarrow> int list \<Rightarrow> error + 'img"
  img_save_JPEG :: "'img \<Rightarrow> error + string"
  abspath :: "string \<Rightarrow> string"

text \<open>
  Lines 462 to 471 of \<^verbatim>\<open>_construct_image_create_resp_from_cache\<close>: the bytes of
  \<^verbatim>\<open>buffered\<close>, for the stored payload and the requested size \<open>sz\<close>. The import
  of the image library before them is taken to succeed.
\<close>

definition buffered_bytes :: "'img library \<Rightarrow> pyval \<Rightarrow> pyval \<Rightarrow> error + string" where
  "buffered_bytes lib image_data sz =
     (case b64decode lib image_data of
        Inl e \<Rightarrow> Inl e
      | Inr img_bytes \<Rightarrow>
          (case PILImage_open lib img_bytes of
             Inl e \<Rightarrow> Inl e
           | Inr img \<Rightarrow>
               (case new_size_of sz of
                  Inl e \<Rightarrow> Inl e
                | Inr new_size \<Rightarrow>
                    if new_size \<noteq> img_size lib img then
                      (case img_resize lib img new_size of
                         Inl e \<Rightarrow> Inl e
                       | Inr resized \<Rightarrow> img_save_JPEG lib resized)
                    else Inr img_bytes)))"

text \<open>\<^verbatim>\<open>_construct_image_create_resp_from_cache\<close>.\<close>

definition construct_image_create_resp_from_cache ::
  "'img library \<Rightarrow> pyval \<Rightarrow> pyval \<Rightarrow> pyval \<Rightarrow> world \<Rightarrow> (error + pyval) \<times> world" where
  "construct_image_create_resp_from_cache lib image_data response_format sz w =
     (case buffered_bytes lib image_data sz of
        Inl e \<Rightarrow> (Inl e, w)
      | Inr buffered \<Rightarrow>
          if response_format = PStr ''url'' then
            (case time_time w of
               (t, w1) \<Rightarrow>
                 (case time_time (write_file (abspath lib (str_int t @ ''.jpeg'')) buffered w1) of
                    (created, w2) \<Rightarrow>
                      (Inr (PDict
                              [(''gptcache'', PBool True),
                               (''created'', PInt created),
                               (''data'',
                                  PList
                                    [PDict
                                       [(''url'',
                                         PStr (abspath lib (str_int t @ ''.jpeg'')))]])]),
                       w2)))
          else if response_format = PStr ''b64_json'' then
            (case time_time w of
               (created, w1) \<Rightarrow>
                 (Inr (PDict
                         [(''gptcache'', PBool True),
                          (''created'', PInt created),
                          (''data'',
                             PList [PDict [(''b64_json'', PStr (b64encode lib buffered))]])]),
                  w1))
          else
            (Inl (AttributeError
                    [Lit ''Invalid response_format: '', Fmt response_format,
                     Lit '' is not one of ['url', 'b64_json']'']),
             w))"

text \<open>\<^verbatim>\<open>kwargs.pop(key, default)\<close>: the value and the remaining keyword arguments.\<close>

definition kwargs_pop :: "kwargs \<Rightarrow> string \<Rightarrow> pyval \<Rightarrow> pyval \<times> kwargs" where
  "kwargs_pop kw k d = (kwargs_get kw k d, kw(k := None))"

text \<open>
  \<^verbatim>\<open>Image.create\<close>. The builder and the extractor are the closures over the popped
  \<^verbatim>\<open>response_format\<close> and \<^verbatim>\<open>size\<close> (here \<open>sz\<close>); the live-call handler
  receives both through the keyword arguments that \<^verbatim>\<open>adapt\<close> is called with.
\<close>

definition Image_create ::
  "('h, pyval \<Rightarrow> world \<Rightarrow> (error + pyval) \<times> world,
    pyval \<Rightarrow> stored \<Rightarrow> error + pyval \<times> stored, 'w) adapt
     \<Rightarrow> 'h \<Rightarrow> 'img library \<Rightarrow> (pyval \<Rightarrow> pyval) \<Rightarrow> (pyval \<Rightarrow> pyval)
     \<Rightarrow> pyval list \<Rightarrow> kwargs \<Rightarrow> 'w \<Rightarrow> (error + pyval) \<times> 'w" where
  "Image_create adapt llm_handler lib get_image_from_openai_b64 get_image_from_openai_url
       args kwargs0 w =
     (case kwargs_pop kwargs0 ''response_format'' (PStr ''url'') of
        (response_format, kwargs1) \<Rightarrow>
          (case kwargs_pop kwargs1 ''size'' (PStr ''256x256'') of
             (sz, kwargs) \<Rightarrow>
               adapt llm_handler
                 (\<lambda>cache_data.
                    construct_image_create_resp_from_cache lib cache_data response_format sz)
                 (Image_update_cache_callback get_image_from_openai_b64
                    get_image_from_openai_url response_format)
                 args
                 (kwargs(''response_format'' \<mapsto> response_format, ''size'' \<mapsto> sz))
                 w))"


section \<open>The streaming extractor\<close>

lemma pull_finished:
  "finished g \<Longrightarrow>
   pull f m g st = \<lparr>yielded = [], raised = None, gen_after = g, stored_after = st\<rparr>"
  by (cases m) (simp_all add: gen_next_def)

lemma pull_text:
  "\<not> finished g \<Longrightarrow> k \<le> length (it g) \<Longrightarrow>
   \<forall>c\<in>set (take k (it g)). f c = Inr (PStr (t c)) \<Longrightarrow>
   pull f k g st =
     \<lparr>yielded = take k (it g), raised = None,
      gen_after =
        g\<lparr>it := drop k (it g), total_answer := total_answer g @ concat (map t (take k (it g)))\<rparr>,
      stored_after = st\<rparr>"
proof (induction k arbitrary: g)
  case 0
  then show ?case by simp
next
  case (Suc k)
  then obtain x xs where xs: "it g = x # xs"
    by (cases "it g") auto
  let ?g = "g\<lparr>it := xs, total_answer := total_answer g @ t x\<rparr>"
  have fx: "f x = Inr (PStr (t x))"
    using Suc.prems(3) xs by simp
  have step: "gen_next f g st = (Yield x, ?g, st)"
    using Suc.prems(1) xs fx by (simp add: gen_next_def)
  have "pull f k ?g st =
      \<lparr>yielded = take k (it ?g), raised = None,
       gen_after =
         ?g\<lparr>it := drop k (it ?g),
            total_answer := total_answer ?g @ concat (map t (take k (it ?g)))\<rparr>,
       stored_after = st\<rparr>"
    using Suc.prems xs by (intro Suc.IH) simp_all
  with step xs show ?case by simp
qed

lemma pull_stores_nothing:
  "k \<le> length (it g) \<Longrightarrow> stored_after (pull f k g st) = st"
proof (induction k arbitrary: g)
  case 0
  then show ?case by simp
next
  case (Suc k)
  show ?case
  proof (cases "finished g")
    case True
    then have "pull f (Suc k) g st =
        \<lparr>yielded = [], raised = None, gen_after = g, stored_after = st\<rparr>"
      by (rule pull_finished)
    then show ?thesis by (simp only: consumed.select_convs)
  next
    case False
    from Suc.prems obtain x xs where xs: "it g = x # xs"
      by (cases "it g") auto
    have k: "k \<le> length xs" using Suc.prems xs by simp
    show ?thesis
      using False xs k Suc.IH [of "g\<lparr>it := xs, total_answer := total_answer g @ s\<rparr>" for s]
      by (auto simp: gen_next_def split: sum.splits pyval.splits)
  qed
qed

lemma pull_yields_prefix:
  "\<exists>j\<le>k. yielded (pull f k g st) = take j (it g)"
proof (induction k arbitrary: g)
  case 0
  then show ?case by simp
next
  case (Suc k)
  show ?case
  proof (cases "finished g \<or> it g = []")
    case True
    then have "yielded (pull f (Suc k) g st) = take 0 (it g)"
      by (auto simp: gen_next_def)
    then show ?thesis by blast
  next
    case False
    then obtain x xs where nf: "\<not> finished g" and xs: "it g = x # xs"
      by (cases "it g") auto
    show ?thesis
    proof (cases "f x")
      case (Inl e)
      then have "yielded (pull f (Suc k) g st) = take 0 (it g)"
        using nf xs by (simp add: gen_next_def)
      then show ?thesis by blast
    next
      case (Inr v)
      show ?thesis
      proof (cases "\<exists>s. v = PStr s")
        case True
        then obtain s where v: "v = PStr s" by blast
        let ?g = "g\<lparr>it := xs, total_answer := total_answer g @ s\<rparr>"
        obtain j where j: "j \<le> k" and y: "yielded (pull f k ?g st) = take j (it ?g)"
          using Suc.IH [of ?g] by blast
        have "yielded (pull f (Suc k) g st) = take (Suc j) (it g)"
          using nf xs Inr v y by (simp add: gen_next_def)
        with j show ?thesis by (meson Suc_le_mono)
      next
        case False
        then have "yielded (pull f (Suc k) g st) = take 0 (it g)"
          using nf xs Inr by (cases v) (simp_all add: gen_next_def)
        then show ?thesis by blast
      qed
    qed
  qed
qed

lemma drain_text:
  "\<not> finished g \<Longrightarrow> \<forall>c\<in>set (it g). f c = Inr (PStr (t c)) \<Longrightarrow>
   drain f g st =
     \<lparr>yielded = it g, raised = None,
      gen_after =
        g\<lparr>it := [], total_answer := total_answer g @ concat (map t (it g)), finished := True\<rparr>,
      stored_after = st @ [Answer (PStr (total_answer g @ concat (map t (it g)))) DataType_STR]\<rparr>"
proof (induction "it g" arbitrary: g)
  case Nil
  then show ?case
    by (subst drain.simps) (simp add: gen_next_def update_cache_func_def)
next
  case (Cons x xs)
  let ?g = "g\<lparr>it := xs, total_answer := total_answer g @ t x\<rparr>"
  have xs: "it g = x # xs" using Cons.hyps(2) by simp
  have fx: "f x = Inr (PStr (t x))"
    using Cons.prems(2) xs by simp
  have step: "gen_next f g st = (Yield x, ?g, st)"
    using Cons.prems(1) xs fx by (simp add: gen_next_def)
  have "drain f ?g st =
      \<lparr>yielded = it ?g, raised = None,
       gen_after =
         ?g\<lparr>it := [], total_answer := total_answer ?g @ concat (map t (it ?g)),
            finished := True\<rparr>,
       stored_after =
         st @ [Answer (PStr (total_answer ?g @ concat (map t (it ?g)))) DataType_STR]\<rparr>"
    using Cons.prems xs by (intro Cons.hyps(1)) simp_all
  with step xs show ?case
    by (subst drain.simps) simp
qed

text \<open>
  C1, as the code has it. For every finite sequence of chunks \<open>cs\<close> in which every
  chunk has a delta text (the helper returns a string, \<open>t c\<close>, for each chunk), the
  callback on an iterator input returns a new generator without storing anything;
  pulling that generator to exhaustion yields exactly \<open>cs\<close>, in order, and raises
  nothing; the storage hook is invoked exactly once, with the TEXT answer that
  concatenates the delta text of every chunk; and it is invoked only after the last
  chunk: once all \<open>length cs\<close> chunks have been pulled nothing has been stored yet.
\<close>

theorem streaming_extractor_full_pull:
  assumes "\<forall>c\<in>set cs. gsm c = Inr (PStr (t c))"
  shows "ChatCompletion_update_cache_callback gm (Iter cs) st = (Hooked (hook_openai_data cs), st)
   \<and> yielded (drain gsm (hook_openai_data cs) st) = cs
   \<and> raised (drain gsm (hook_openai_data cs) st) = None
   \<and> stored_after (drain gsm (hook_openai_data cs) st) =
       st @ [Answer (PStr (concat (map t cs))) DataType_STR]
   \<and> yielded (pull gsm (length cs) (hook_openai_data cs) st) = cs
   \<and> stored_after (pull gsm (length cs) (hook_openai_data cs) st) = st"
proof -
  have nf: "\<not> finished (hook_openai_data cs)" and i: "it (hook_openai_data cs) = cs"
    and ta: "total_answer (hook_openai_data cs) = []"
    by (simp_all add: hook_openai_data_def)
  have d: "drain gsm (hook_openai_data cs) st =
      \<lparr>yielded = cs, raised = None,
       gen_after =
         (hook_openai_data cs)\<lparr>it := [], total_answer := concat (map t cs), finished := True\<rparr>,
       stored_after = st @ [Answer (PStr (concat (map t cs))) DataType_STR]\<rparr>"
    using drain_text [OF nf, of gsm t st] assms by (simp add: i ta)
  have p: "pull gsm (length cs) (hook_openai_data cs) st =
      \<lparr>yielded = cs, raised = None,
       gen_after = (hook_openai_data cs)\<lparr>it := [], total_answer := concat (map t cs)\<rparr>,
       stored_after = st\<rparr>"
    using pull_text [OF nf, of "length cs" gsm t st] assms by (simp add: i ta)
  show ?thesis
    by (simp add: d p ChatCompletion_update_cache_callback_def)
qed

theorem streaming_extractor_full_pull_witness:
  "yielded (drain (\<lambda>c. dict_get c ''content'')
      (hook_openai_data [PDict [(''content'', PStr ''Hel'')], PDict [(''content'', PStr ''lo'')]])
      []) = [PDict [(''content'', PStr ''Hel'')], PDict [(''content'', PStr ''lo'')]]
   \<and> stored_after (drain (\<lambda>c. dict_get c ''content'')
      (hook_openai_data [PDict [(''content'', PStr ''Hel'')], PDict [(''content'', PStr ''lo'')]])
      []) = [Answer (PStr ''Hello'') DataType_STR]"
  using streaming_extractor_full_pull
    [of "[PDict [(''content'', PStr ''Hel'')], PDict [(''content'', PStr ''lo'')]]"
        "\<lambda>c. dict_get c ''content''"
        "\<lambda>c. case dict_get c ''content'' of Inr (PStr s) \<Rightarrow> s | _ \<Rightarrow> []"
        "\<lambda>d. []" "[]"]
  by simp

text \<open>
  The claim as stated fails for a stream with a chunk whose delta text is null: the
  generator raises \<open>TypeError\<close> at that chunk before yielding it, the chunks after
  it are never yielded, and nothing is stored.
\<close>

theorem streaming_extractor_null_delta:
  "yielded (drain (\<lambda>c. dict_get c ''content'')
      (hook_openai_data
         [PDict [(''content'', PStr ''Hel'')], PDict [(''content'', PNone)],
          PDict [(''content'', PStr ''lo'')]])
      []) = [PDict [(''content'', PStr ''Hel'')]]
   \<and> raised (drain (\<lambda>c. dict_get c ''content'')
      (hook_openai_data
         [PDict [(''content'', PStr ''Hel'')], PDict [(''content'', PNone)],
          PDict [(''content'', PStr ''lo'')]])
      []) = Some TypeError
   \<and> stored_after (drain (\<lambda>c. dict_get c ''content'')
      (hook_openai_data
         [PDict [(''content'', PStr ''Hel'')], PDict [(''content'', PNone)],
          PDict [(''content'', PStr ''lo'')]])
      []) = []"
  by (simp add: drain.simps gen_next_def hook_openai_data_def)

text \<open>
  C2. For every finite sequence of chunks \<open>cs\<close>, every \<open>k < length cs\<close> and every
  behaviour of the delta-text helper: a consumer that pulls only \<open>k\<close> elements has
  not caused the storage hook to be invoked; after the generator is abandoned
  (closed), no later pull, however many, invokes it either. What the consumer has
  received is a prefix of the first \<open>k\<close> chunks, and all \<open>k\<close> of them when each has
  a delta text.
\<close>

theorem streaming_extractor_abandoned:
  assumes "k < length cs"
  shows "stored_after (pull f k (hook_openai_data cs) st) = st
   \<and> stored_after (pull f m (gen_close (gen_after (pull f k (hook_openai_data cs) st))) st) = st
   \<and> (\<exists>j\<le>k. yielded (pull f k (hook_openai_data cs) st) = take j cs)
   \<and> ((\<forall>c\<in>set (take k cs). f c = Inr (PStr (t c))) \<longrightarrow>
        yielded (pull f k (hook_openai_data cs) st) = take k cs
        \<and> raised (pull f k (hook_openai_data cs) st) = None)"
proof -
  have nf: "\<not> finished (hook_openai_data cs)" and i: "it (hook_openai_data cs) = cs"
    by (simp_all add: hook_openai_data_def)
  have s: "stored_after (pull f k (hook_openai_data cs) st) = st"
    using pull_stores_nothing [of k "hook_openai_data cs" f st] assms by (simp add: i)
  have c: "stored_after (pull f m (gen_close (gen_after (pull f k (hook_openai_data cs) st))) st) = st"
    by (simp add: pull_finished gen_close_def)
  have y: "\<exists>j\<le>k. yielded (pull f k (hook_openai_data cs) st) = take j cs"
    using pull_yields_prefix [of k f "hook_openai_data cs" st] by (simp add: i)
  have t: "(\<forall>c\<in>set (take k cs). f c = Inr (PStr (t c))) \<longrightarrow>
        yielded (pull f k (hook_openai_data cs) st) = take k cs
        \<and> raised (pull f k (hook_openai_data cs) st) = None"
    using pull_text [OF nf, of k f t st] assms by (simp add: i)
  from s c y t show ?thesis by blast
qed

theorem streaming_extractor_abandoned_witness:
  "(1::nat) < length [PDict [(''content'', PStr ''a'')], PDict [(''content'', PStr ''b'')],
       PDict [(''content'', PStr ''c'')]]
   \<and> yielded (pull (\<lambda>c. dict_get c ''content'') 1
         (hook_openai_data [PDict [(''content'', PStr ''a'')], PDict [(''content'', PStr ''b'')],
            PDict [(''content'', PStr ''c'')]]) []) = [PDict [(''content'', PStr ''a'')]]
   \<and> stored_after (pull (\<lambda>c. dict_get c ''content'') 1
         (hook_openai_data [PDict [(''content'', PStr ''a'')], PDict [(''content'', PStr ''b'')],
            PDict [(''content'', PStr ''c'')]]) []) = []"
  using streaming_extractor_abandoned
    [of 1 "[PDict [(''content'', PStr ''a'')], PDict [(''content'', PStr ''b'')],
            PDict [(''content'', PStr ''c'')]]"
        "\<lambda>c. dict_get c ''content''" "[]" 0
        "\<lambda>c. case dict_get c ''content'' of Inr (PStr s) \<Rightarrow> s | _ \<Rightarrow> []"]
  by simp


section \<open>Token accounting on a cache hit\<close>

lemma items_loop_sum:
  "\<forall>kv\<in>set kvs. tc (snd kv) = Inr (n (snd kv)) \<Longrightarrow>
   items_loop tc kvs num tk =
     (Inr (num + (\<Sum>kv\<leftarrow>kvs. n (snd kv) + (if fst kv = ''name'' then 1 else 0))),
      tk @ map snd kvs)"
  by (induction kvs arbitrary: num tk) (auto simp: token_counter_def)

lemma name_bonus_distinct:
  "distinct (map fst kvs) \<Longrightarrow>
   (\<Sum>kv\<leftarrow>kvs. (if fst kv = k then 1 else 0)) = (if k \<in> fst ` set kvs then (1::int) else 0)"
  by (induction kvs) (auto simp: image_iff)

lemma per_message_sum:
  "distinct (map fst kvs) \<Longrightarrow>
   (\<Sum>kv\<leftarrow>kvs. n (snd kv) + (if fst kv = ''name'' then 1 else 0)) =
     (\<Sum>kv\<leftarrow>kvs. n (snd kv)) + (if ''name'' \<in> fst ` set kvs then (1::int) else 0)"
  using name_bonus_distinct [of kvs "''name''"]
  by (simp add: sum_list_addf)

lemma messages_loop_sum:
  "\<forall>m\<in>set ms. distinct (map fst m) \<Longrightarrow>
   \<forall>m\<in>set ms. \<forall>kv\<in>set m. tc (snd kv) = Inr (n (snd kv)) \<Longrightarrow>
   messages_loop tc (map PDict ms) num tk =
     (Inr (num + (\<Sum>m\<leftarrow>ms. 3 + (\<Sum>kv\<leftarrow>m. n (snd kv))
                 + (if ''name'' \<in> fst ` set m then 1 else 0))),
      tk @ concat (map (map snd) ms))"
proof (induction ms arbitrary: num tk)
  case Nil
  then show ?case by simp
next
  case (Cons m ms)
  have d: "distinct (map fst m)" using Cons.prems by simp
  have t: "\<forall>kv\<in>set m. tc (snd kv) = Inr (n (snd kv))" using Cons.prems by simp
  have rest: "\<forall>m\<in>set ms. distinct (map fst m)"
    "\<forall>m\<in>set ms. \<forall>kv\<in>set m. tc (snd kv) = Inr (n (snd kv))"
    using Cons.prems by simp_all
  show ?case
    by (simp add: items_loop_sum [OF t] per_message_sum [OF d] Cons.IH [OF rest])
qed

lemma convert_disabled:
  "ChatCompletion_cache_data_convert tc False kw now cache_data tk =
     (Inr ((if truthy (kwargs_get kw ''stream'' (PBool False))
              then construct_stream_resp_from_cache else construct_resp_from_cache)
             cache_data (PList [PInt 0, PInt 0]) now),
      tk)"
  by (simp add: ChatCompletion_cache_data_convert_def)

lemma convert_enabled:
  assumes "kw ''messages'' = Some (PList (map PDict ms))"
    and "\<forall>m\<in>set ms. distinct (map fst m)"
    and "\<forall>m\<in>set ms. \<forall>kv\<in>set m. tc (snd kv) = Inr (n (snd kv))"
    and "tc cache_data = Inr (n cache_data)"
  shows "ChatCompletion_cache_data_convert tc True kw now cache_data tk =
     (Inr ((if truthy (kwargs_get kw ''stream'' (PBool False))
              then construct_stream_resp_from_cache else construct_resp_from_cache)
             cache_data
             (PList
                [PInt ((\<Sum>m\<leftarrow>ms. 3 + (\<Sum>kv\<leftarrow>m. n (snd kv))
                          + (if ''name'' \<in> fst ` set m then 1 else 0)) + 3),
                 PInt (n cache_data)])
             now),
      tk @ concat (map (map snd) ms) @ [cache_data])"
proof -
  have m: "kwargs_get kw ''messages'' PNone = PList (map PDict ms)"
    using assms(1) by (simp add: kwargs_get_def)
  have c: "num_tokens_from_messages tc (PList (map PDict ms)) tk =
      (Inr ((\<Sum>m\<leftarrow>ms. 3 + (\<Sum>kv\<leftarrow>m. n (snd kv))
                + (if ''name'' \<in> fst ` set m then 1 else 0)) + 3),
       tk @ concat (map (map snd) ms))"
    by (simp add: num_tokens_from_messages_def messages_loop_sum [OF assms(2,3)])
  show ?thesis
    by (simp add: ChatCompletion_cache_data_convert_def m c token_counter_def assms(4))
qed

text \<open>
  C8, as the code has it. On a chat cache hit with token accounting disabled, the
  envelope (the chat completion object, or the last of the three stream chunks)
  reports the token cost \<open>[0, 0]\<close> and the tokenizer is not invoked: its call record
  is unchanged. With accounting enabled, for messages that are a list of dicts (no
  dict with a duplicate key) and a tokenizer that returns a count \<open>n v\<close> for every
  field value and for the cached answer, the reported input count is the sum over the
  messages of 3, plus the token count of every field value, plus 1 when the message
  has a \<open>name\<close> field, and a trailing 3; the output count is the token count of the
  cached answer.
\<close>

theorem chat_cache_hit_token_cost:
  "ChatCompletion_cache_data_convert tc False kw now cache_data tk =
     (Inr (if truthy (kwargs_get kw ''stream'' (PBool False)) then
              PList
                [PDict
                   [(''choices'',
                       PList
                         [PDict
                            [(''delta'', PDict [(''role'', PStr ''assistant'')]),
                             (''finish_reason'', PNone), (''index'', PInt 0)]]),
                    (''created'', PInt now),
                    (''object'', PStr ''chat.completion.chunk'')],
                 PDict
                   [(''choices'',
                       PList
                         [PDict
                            [(''delta'', PDict [(''content'', cache_data)]),
                             (''finish_reason'', PNone), (''index'', PInt 0)]]),
                    (''created'', PInt now),
                    (''object'', PStr ''chat.completion.chunk'')],
                 PDict
                   [(''gptcache'', PBool True),
                    (''choices'',
                       PList
                         [PDict
                            [(''delta'', PDict []), (''finish_reason'', PStr ''stop''),
                             (''index'', PInt 0)]]),
                    (''created'', PInt now),
                    (''object'', PStr ''chat.completion.chunk''),
                    (''saved_token'', PList [PInt 0, PInt 0])]]
            else
              PDict
                [(''gptcache'', PBool True),
                 (''saved_token'', PList [PInt 0, PInt 0]),
                 (''choices'',
                    PList
                      [PDict
                         [(''message'',
                             PDict [(''role'', PStr ''assistant''), (''content'', cache_data)]),
                          (''finish_reason'', PStr ''stop''),
                          (''index'', PInt 0)]]),
                 (''created'', PInt now),
                 (''usage'',
                    PDict
                      [(''completion_tokens'', PInt 0), (''prompt_tokens'', PInt 0),
                       (''total_tokens'', PInt 0)]),
                 (''object'', PStr ''chat.completion'')]),
      tk)
   \<and> (kw ''messages'' = Some (PList (map PDict ms))
        \<and> (\<forall>m\<in>set ms. distinct (map fst m))
        \<and> (\<forall>m\<in>set ms. \<forall>kv\<in>set m. tc (snd kv) = Inr (n (snd kv)))
        \<and> tc cache_data = Inr (n cache_data) \<longrightarrow>
      ChatCompletion_cache_data_convert tc True kw now cache_data tk =
        (Inr (if truthy (kwargs_get kw ''stream'' (PBool False)) then
              PList
                [PDict
                   [(''choices'',
                       PList
                         [PDict
                            [(''delta'', PDict [(''role'', PStr ''assistant'')]),
                             (''finish_reason'', PNone), (''index'', PInt 0)]]),
                    (''created'', PInt now),
                    (''object'', PStr ''chat.completion.chunk'')],
                 PDict
                   [(''choices'',
                       PList
                         [PDict
                            [(''delta'', PDict [(''content'', cache_data)]),
                             (''finish_reason'', PNone), (''index'', PInt 0)]]),
                    (''created'', PInt now),
                    (''object'', PStr ''chat.completion.chunk'')],
                 PDict
                   [(''gptcache'', PBool True),
                    (''choices'',
                       PList
                         [PDict
                            [(''delta'', PDict []), (''finish_reason'', PStr ''stop''),
                             (''index'', PInt 0)]]),
                    (''created'', PInt now),
                    (''object'', PStr ''chat.completion.chunk''),
                    (''saved_token'', PList
                   [PInt ((\<Sum>m\<leftarrow>ms. 3 + (\<Sum>kv\<leftarrow>m. n (snd kv))
                             + (if ''name'' \<in> fst ` set m then 1 else 0)) + 3),
                    PInt (n cache_data)])]]
            else
              PDict
                [(''gptcache'', PBool True),
                 (''saved_token'', PList
                   [PInt ((\<Sum>m\<leftarrow>ms. 3 + (\<Sum>kv\<leftarrow>m. n (snd kv))
                             + (if ''name'' \<in> fst ` set m then 1 else 0)) + 3),
                    PInt (n cache_data)]),
                 (''choices'',
                    PList
                      [PDict
                         [(''message'',
                             PDict [(''role'', PStr ''assistant''), (''content'', cache_data)]),
                          (''finish_reason'', PStr ''stop''),
                          (''index'', PInt 0)]]),
                 (''created'', PInt now),
                 (''usage'',
                    PDict
                      [(''completion_tokens'', PInt 0), (''prompt_tokens'', PInt 0),
                       (''total_tokens'', PInt 0)]),
                 (''object'', PStr ''chat.completion'')]),
         tk @ concat (map (map snd) ms) @ [cache_data]))"
proof -
  have d: "ChatCompletion_cache_data_convert tc False kw now cache_data tk =
     (Inr (if truthy (kwargs_get kw ''stream'' (PBool False)) then
              PList
                [PDict
                   [(''choices'',
                       PList
                         [PDict
                            [(''delta'', PDict [(''role'', PStr ''assistant'')]),
                             (''finish_reason'', PNone), (''index'', PInt 0)]]),
                    (''created'', PInt now),
                    (''object'', PStr ''chat.completion.chunk'')],
                 PDict
                   [(''choices'',
                       PList
                         [PDict
                            [(''delta'', PDict [(''content'', cache_data)]),
                             (''finish_reason'', PNone), (''index'', PInt 0)]]),
                    (''created'', PInt now),
                    (''object'', PStr ''chat.completion.chunk'')],
                 PDict
                   [(''gptcache'', PBool True),
                    (''choices'',
                       PList
                         [PDict
                            [(''delta'', PDict []), (''finish_reason'', PStr ''stop''),
                             (''index'', PInt 0)]]),
                    (''created'', PInt now),
                    (''object'', PStr ''chat.completion.chunk''),
                    (''saved_token'', PList [PInt 0, PInt 0])]]
            else
              PDict
                [(''gptcache'', PBool True),
                 (''saved_token'', PList [PInt 0, PInt 0]),
                 (''choices'',
                    PList
                      [PDict
                         [(''message'',
                             PDict [(''role'', PStr ''assistant''), (''content'', cache_data)]),
                          (''finish_reason'', PStr ''stop''),
                          (''index'', PInt 0)]]),
                 (''created'', PInt now),
                 (''usage'',
                    PDict
                      [(''completion_tokens'', PInt 0), (''prompt_tokens'', PInt 0),
                       (''total_tokens'', PInt 0)]),
                 (''object'', PStr ''chat.completion'')]),
      tk)"
    by (simp add: convert_disabled construct_resp_from_cache_def
        construct_stream_resp_from_cache_def)
  have e: "ChatCompletion_cache_data_convert tc True kw now cache_data tk =
        (Inr (if truthy (kwargs_get kw ''stream'' (PBool False)) then
              PList
                [PDict
                   [(''choices'',
                       PList
                         [PDict
                            [(''delta'', PDict [(''role'', PStr ''assistant'')]),
                             (''finish_reason'', PNone), (''index'', PInt 0)]]),
                    (''created'', PInt now),
                    (''object'', PStr ''chat.completion.chunk'')],
                 PDict
                   [(''choices'',
                       PList
                         [PDict
                            [(''delta'', PDict [(''content'', cache_data)]),
                             (''finish_reason'', PNone), (''index'', PInt 0)]]),
                    (''created'', PInt now),
                    (''object'', PStr ''chat.completion.chunk'')],
                 PDict
                   [(''gptcache'', PBool True),
                    (''choices'',
                       PList
                         [PDict
                            [(''delta'', PDict []), (''finish_reason'', PStr ''stop''),
                             (''index'', PInt 0)]]),
                    (''created'', PInt now),
                    (''object'', PStr ''chat.completion.chunk''),
                    (''saved_token'', PList
                   [PInt ((\<Sum>m\<leftarrow>ms. 3 + (\<Sum>kv\<leftarrow>m. n (snd kv))
                             + (if ''name'' \<in> fst ` set m then 1 else 0)) + 3),
                    PInt (n cache_data)])]]
            else
              PDict
                [(''gptcache'', PBool True),
                 (''saved_token'', PList
                   [PInt ((\<Sum>m\<leftarrow>ms. 3 + (\<Sum>kv\<leftarrow>m. n (snd kv))
                             + (if ''name'' \<in> fst ` set m then 1 else 0)) + 3),
                    PInt (n cache_data)]),
                 (''choices'',
                    PList
                      [PDict
                         [(''message'',
                             PDict [(''role'', PStr ''assistant''), (''content'', cache_data)]),
                          (''finish_reason'', PStr ''stop''),
                          (''index'', PInt 0)]]),
                 (''created'', PInt now),
                 (''usage'',
                    PDict
                      [(''completion_tokens'', PInt 0), (''prompt_tokens'', PInt 0),
                       (''total_tokens'', PInt 0)]),
                 (''object'', PStr ''chat.completion'')]),
         tk @ concat (map (map snd) ms) @ [cache_data])"
    if "kw ''messages'' = Some (PList (map PDict ms))"
      and "\<forall>m\<in>set ms. distinct (map fst m)"
      and "\<forall>m\<in>set ms. \<forall>kv\<in>set m. tc (snd kv) = Inr (n (snd kv))"
      and "tc cache_data = Inr (n cache_data)"
    using convert_enabled [of kw ms tc n cache_data now tk] that
    by (simp add: construct_resp_from_cache_def construct_stream_resp_from_cache_def)
  from d e show ?thesis by blast
qed

theorem chat_cache_hit_token_cost_witness:
  "ChatCompletion_cache_data_convert (\<lambda>v. case v of PStr s \<Rightarrow> Inr (int (length s)) | _ \<Rightarrow> Inl TypeError) True
      [''messages'' \<mapsto> PList [PDict [(''role'', PStr ''user''), (''content'', PStr ''hi'')]]]
      7 (PStr ''hello'') [] =
     (Inr (PDict
             [(''gptcache'', PBool True),
              (''saved_token'', PList [PInt 12, PInt 5]),
              (''choices'',
                 PList
                   [PDict
                      [(''message'',
                          PDict [(''role'', PStr ''assistant''), (''content'', PStr ''hello'')]),
                       (''finish_reason'', PStr ''stop''),
                       (''index'', PInt 0)]]),
              (''created'', PInt 7),
              (''usage'',
                 PDict
                   [(''completion_tokens'', PInt 0), (''prompt_tokens'', PInt 0),
                    (''total_tokens'', PInt 0)]),
              (''object'', PStr ''chat.completion'')]),
      [PStr ''user'', PStr ''hi'', PStr ''hello''])"
  using chat_cache_hit_token_cost
    [of "\<lambda>v. case v of PStr s \<Rightarrow> Inr (int (length s)) | _ \<Rightarrow> Inl TypeError"
        "[''messages'' \<mapsto> PList [PDict [(''role'', PStr ''user''), (''content'', PStr ''hi'')]]]"
        7 "PStr ''hello''" "[]"
        "[[(''role'', PStr ''user''), (''content'', PStr ''hi'')]]"
        "\<lambda>v. case v of PStr s \<Rightarrow> int (length s) | _ \<Rightarrow> 0"]
  by (simp add: kwargs_get_def)

text \<open>
  The claim as stated fails for a cache hit whose messages hold a value the tokenizer
  raises on, such as a null content: the conversion raises and reports no cost.
\<close>

theorem chat_cache_hit_tokenizer_raises:
  "ChatCompletion_cache_data_convert (\<lambda>v. case v of PStr s \<Rightarrow> Inr (int (length s)) | _ \<Rightarrow> Inl TypeError) True
      [''messages'' \<mapsto> PList [PDict [(''role'', PStr ''assistant''), (''content'', PNone)]]]
      7 (PStr ''hello'') [] =
     (Inl TypeError, [PStr ''assistant'', PNone])"
  by (simp add: ChatCompletion_cache_data_convert_def num_tokens_from_messages_def
      kwargs_get_def token_counter_def)


section \<open>The image extractor\<close>

text \<open>
  C3, as the code has it. With \<open>response_format = "url"\<close> the extractor stores what
  \<open>get_image_from_openai_url\<close> returns under kind \<open>IMAGE_URL\<close>. With
  \<open>response_format = "b64_json"\<close> it stores under kind \<open>IMAGE_BASE64\<close>: a bytes
  payload as it is, an ASCII text payload encoded to bytes. In each case the live
  response is returned.
\<close>

theorem image_extractor_kinds:
  "Image_update_cache_callback gb gu (PStr ''url'') d st = Inr (d, st @ [Answer (gu d) IMAGE_URL])
   \<and> (gb d = PBytes b \<longrightarrow>
        Image_update_cache_callback gb gu (PStr ''b64_json'') d st =
          Inr (d, st @ [Answer (PBytes b) IMAGE_BASE64]))
   \<and> (gb d = PStr s \<and> list_all (\<lambda>c. (of_char c :: nat) < 128) s \<longrightarrow>
        Image_update_cache_callback gb gu (PStr ''b64_json'') d st =
          Inr (d, st @ [Answer (PBytes s) IMAGE_BASE64]))"
  by (simp add: Image_update_cache_callback_def update_cache_func_def encode_ascii_def)

theorem image_extractor_kinds_witness:
  "Image_update_cache_callback (\<lambda>d. PStr ''aGk='') (\<lambda>d. PBytes ''aGV5'')
      (PStr ''b64_json'') (PDict []) [] = Inr (PDict [], [Answer (PBytes ''aGk='') IMAGE_BASE64])
   \<and> Image_update_cache_callback (\<lambda>d. PStr ''aGk='') (\<lambda>d. PBytes ''aGV5'')
      (PStr ''url'') (PDict []) [] = Inr (PDict [], [Answer (PBytes ''aGV5'') IMAGE_URL])"
  using image_extractor_kinds
    [of "\<lambda>d. PStr ''aGk=''" "\<lambda>d. PBytes ''aGV5''" "PDict []" "[]" "[]" "''aGk=''"]
  by simp

text \<open>
  The claim as stated fails for \<open>response_format = "url"\<close>: the one stored answer
  does not have kind \<open>IMAGE_BASE64\<close>.
\<close>

theorem image_url_stored_as_image_url:
  "\<not> map_sum id (\<lambda>r. map answer_type (snd r))
        (Image_update_cache_callback (\<lambda>d. PStr ''aGk='') (\<lambda>d. PBytes ''aGV5'')
           (PStr ''url'') (PDict []) []) = Inr [IMAGE_BASE64]"
  by (simp add: Image_update_cache_callback_def update_cache_func_def)


section \<open>What the callbacks return\<close>

text \<open>
  C9, as the code has it. The callbacks of non-streaming chat, completion, audio
  (transcribe and translate) and moderation return the live response they were given;
  the image callback returns it too unless encoding a text payload raises
  \<open>UnicodeEncodeError\<close>. The streaming chat callback returns a new generator
  instead, without storing anything; pulled to exhaustion, that generator yields the
  chunks of the live stream, unchanged and in order, when every chunk has a delta
  text.
\<close>

theorem callbacks_return_live_response:
  "fst (ChatCompletion_update_cache_callback gm (Obj d) st) = Returned (Obj d)
   \<and> fst (Completion_update_cache_callback gt d st) = d
   \<and> fst (Audio_transcribe_update_cache_callback ga d st) = d
   \<and> fst (Audio_translate_update_cache_callback ga d st) = d
   \<and> fst (Moderation_update_cache_callback jd d st) = d
   \<and> (case Image_update_cache_callback gb gu rf d st of
         Inl e \<Rightarrow> e = UnicodeEncodeError
       | Inr (d', st') \<Rightarrow> d' = d)
   \<and> ChatCompletion_update_cache_callback gm (Iter cs) st = (Hooked (hook_openai_data cs), st)
   \<and> ((\<forall>c\<in>set cs. gsm c = Inr (PStr (t c))) \<longrightarrow>
        yielded (drain gsm (hook_openai_data cs) st') = cs
        \<and> raised (drain gsm (hook_openai_data cs) st') = None)"
proof -
  have nf: "\<not> finished (hook_openai_data cs)" and i: "it (hook_openai_data cs) = cs"
    by (simp_all add: hook_openai_data_def)
  have d: "(\<forall>c\<in>set cs. gsm c = Inr (PStr (t c))) \<longrightarrow>
        yielded (drain gsm (hook_openai_data cs) st') = cs
        \<and> raised (drain gsm (hook_openai_data cs) st') = None"
    using drain_text [OF nf, of gsm t st'] by (simp add: i)
  have img: "(case Image_update_cache_callback gb gu rf d st of
         Inl e \<Rightarrow> e = UnicodeEncodeError
       | Inr (d', st') \<Rightarrow> d' = d)"
    by (simp add: Image_update_cache_callback_def encode_ascii_def split: pyval.splits)
  show ?thesis
    using d img
    by (simp add: ChatCompletion_update_cache_callback_def Completion_update_cache_callback_def
        Audio_transcribe_update_cache_callback_def Audio_translate_update_cache_callback_def
        Moderation_update_cache_callback_def)
qed

theorem callbacks_return_live_response_witness:
  "ChatCompletion_update_cache_callback (\<lambda>d. []) (Iter [PDict [(''content'', PStr ''hi'')]]) [] =
     (Hooked (hook_openai_data [PDict [(''content'', PStr ''hi'')]]), [])
   \<and> yielded (drain (\<lambda>c. dict_get c ''content'')
        (hook_openai_data [PDict [(''content'', PStr ''hi'')]]) []) =
       [PDict [(''content'', PStr ''hi'')]]"
  using callbacks_return_live_response
    [where gm = "\<lambda>d. []" and cs = "[PDict [(''content'', PStr ''hi'')]]" and st = "[]"
       and st' = "[]" and gsm = "\<lambda>c. dict_get c ''content''"
       and t = "\<lambda>c. case dict_get c ''content'' of Inr (PStr s) \<Rightarrow> s | _ \<Rightarrow> []"
       and d = PNone and gt = "\<lambda>d. []" and ga = "\<lambda>d. []" and jd = "\<lambda>d. []"
       and gb = "\<lambda>d. PNone" and gu = "\<lambda>d. PNone" and rf = PNone]
  by simp

text \<open>
  The claim as stated fails for streaming chat: what the callback returns is not the
  iterator it was given, and nothing has been stored when it returns.
\<close>

theorem streaming_callback_returns_new_generator:
  "fst (ChatCompletion_update_cache_callback (\<lambda>d. []) (Iter [PStr ''a'']) [])
     \<noteq> Returned (Iter [PStr ''a''])
   \<and> snd (ChatCompletion_update_cache_callback (\<lambda>d. []) (Iter [PStr ''a'']) []) = []"
  by (simp add: ChatCompletion_update_cache_callback_def)


section \<open>The moderation retry\<close>

lemma expect_res_len_cases:
  "kw ''input'' = Some (PStr s) \<Longrightarrow> expect_res_len kw = 1"
  "kw ''input'' = Some (PList xs) \<Longrightarrow> expect_res_len kw = int (length xs)"
  by (simp_all add: expect_res_len_def kwargs_get_def)

lemma Moderation_create_checked:
  assumes "adapt h (Moderation_cache_data_convert jl) (Moderation_update_cache_callback jd)
             args (fill kwargs) w = (Inr res, w1)"
    and "results_len res = Inr n"
  shows "Moderation_create adapt fill h jl jd args kwargs w =
      (if n \<noteq> expect_res_len (fill kwargs) then
         (adapt h (Moderation_cache_data_convert jl) (Moderation_update_cache_callback jd)
            args ((fill kwargs)(''cache_skip'' \<mapsto> PBool True)) w1,
          [fill kwargs, (fill kwargs)(''cache_skip'' \<mapsto> PBool True)])
       else ((Inr res, w1), [fill kwargs]))"
  using assms
  by (auto simp: Moderation_create_def results_len_def Let_def split: sum.splits)

text \<open>
  C6. \<open>expect_res_len\<close> is 1 for a single string input and the length of the input
  for a list. When the first call of the orchestration core returns a response whose
  number of per-input results differs from it, \<open>Moderation.create\<close> calls the core
  once more, with the same arguments and \<open>cache_skip\<close> set to \<open>True\<close>, and the
  outcome of that second call is its outcome; when the numbers agree it returns the
  first response and the core has been called once.
\<close>

theorem moderation_retry:
  assumes "adapt h (Moderation_cache_data_convert jl) (Moderation_update_cache_callback jd)
             args (fill kwargs) w = (Inr res, w1)"
    and "results_len res = Inr n"
  shows "(fill kwargs ''input'' = Some (PStr s) \<longrightarrow> expect_res_len (fill kwargs) = 1)
     \<and> (fill kwargs ''input'' = Some (PList xs) \<longrightarrow>
          expect_res_len (fill kwargs) = int (length xs))
     \<and> (n \<noteq> expect_res_len (fill kwargs) \<longrightarrow>
          Moderation_create adapt fill h jl jd args kwargs w =
            (adapt h (Moderation_cache_data_convert jl) (Moderation_update_cache_callback jd)
               args ((fill kwargs)(''cache_skip'' \<mapsto> PBool True)) w1,
             [fill kwargs, (fill kwargs)(''cache_skip'' \<mapsto> PBool True)]))
     \<and> (n = expect_res_len (fill kwargs) \<longrightarrow>
          Moderation_create adapt fill h jl jd args kwargs w = ((Inr res, w1), [fill kwargs]))"
  using assms by (simp add: Moderation_create_checked expect_res_len_cases)

theorem moderation_retry_witness:
  "Moderation_create
     (\<lambda>h c u args kw n.
        (Inr (PDict [(''results'',
                 PList (if kw ''cache_skip'' = Some (PBool True)
                        then [PNone, PNone, PNone] else [PNone]))]),
         Suc n))
     (\<lambda>kw. kw) () Inr (\<lambda>d. []) []
     [''input'' \<mapsto> PList [PStr ''a'', PStr ''b'', PStr ''c'']] 0 =
   ((Inr (PDict [(''results'', PList [PNone, PNone, PNone])]), 2),
    [[''input'' \<mapsto> PList [PStr ''a'', PStr ''b'', PStr ''c'']],
     [''input'' \<mapsto> PList [PStr ''a'', PStr ''b'', PStr ''c''], ''cache_skip'' \<mapsto> PBool True]])"
proof -
  let ?adapt = "\<lambda>(h::unit) (c::pyval \<Rightarrow> error + pyval) (u::pyval \<Rightarrow> stored \<Rightarrow> pyval \<times> stored)
      (args::pyval list) (kw::kwargs) (n::nat).
        (Inr (PDict [(''results'',
                 PList (if kw ''cache_skip'' = Some (PBool True)
                        then [PNone, PNone, PNone] else [PNone]))]) :: error + pyval,
         Suc n)"
  let ?kw = "[''input'' \<mapsto> PList [PStr ''a'', PStr ''b'', PStr ''c'']]"
  have first: "?adapt () (Moderation_cache_data_convert Inr)
      (Moderation_update_cache_callback (\<lambda>d. [])) [] ((\<lambda>kw. kw) ?kw) 0 =
      (Inr (PDict [(''results'', PList [PNone])]), 1)"
    by simp
  have len: "results_len (PDict [(''results'', PList [PNone])]) = Inr 1"
    by (simp add: results_len_def)
  show ?thesis
    using moderation_retry [where adapt = ?adapt and fill = "\<lambda>kw. kw" and kwargs = ?kw
        and h = "()" and jl = Inr and jd = "\<lambda>d. []" and args = "[]" and w = 0
        and res = "PDict [(''results'', PList [PNone])]" and ?w1.0 = 1 and n = 1
        and s = "[]" and xs = "[PStr ''a'', PStr ''b'', PStr ''c'']", OF first len]
    by (simp add: expect_res_len_def kwargs_get_def)
qed

text \<open>
  C7, as the code has it. A moderation call that returns a response either made no
  retry, and the response's number of per-input results equals the batch size, or it
  returns what the single \<open>cache_skip\<close> retry returned, after a first response of
  another cardinality; the retry's response is not checked.
\<close>

theorem moderation_cardinality:
  assumes "Moderation_create adapt fill h jl jd args kwargs w = ((Inr res, w'), calls)"
  shows "(calls = [fill kwargs] \<and> results_len res = Inr (expect_res_len (fill kwargs)))
     \<or> (calls = [fill kwargs, (fill kwargs)(''cache_skip'' \<mapsto> PBool True)]
        \<and> (\<exists>res1 w1.
              adapt h (Moderation_cache_data_convert jl) (Moderation_update_cache_callback jd)
                args (fill kwargs) w = (Inr res1, w1)
              \<and> results_len res1 \<noteq> Inr (expect_res_len (fill kwargs))
              \<and> adapt h (Moderation_cache_data_convert jl)
                  (Moderation_update_cache_callback jd) args
                  ((fill kwargs)(''cache_skip'' \<mapsto> PBool True)) w1 = (Inr res, w')))"
  using assms
  by (auto simp: Moderation_create_def results_len_def Let_def
      split: sum.splits prod.splits if_splits)

theorem moderation_cardinality_witness:
  "Moderation_create
     (\<lambda>h c u args kw n. (Inr (PDict [(''results'', PList [PNone, PNone])]), Suc n))
     (\<lambda>kw. kw) () Inr (\<lambda>d. []) [] [''input'' \<mapsto> PList [PStr ''a'', PStr ''b'']] 0 =
     ((Inr (PDict [(''results'', PList [PNone, PNone])]), 1),
      [[''input'' \<mapsto> PList [PStr ''a'', PStr ''b'']]])
   \<and> results_len (PDict [(''results'', PList [PNone, PNone])]) =
     Inr (expect_res_len [''input'' \<mapsto> PList [PStr ''a'', PStr ''b'']])"
proof -
  let ?adapt = "\<lambda>(h::unit) (c::pyval \<Rightarrow> error + pyval) (u::pyval \<Rightarrow> stored \<Rightarrow> pyval \<times> stored)
      (args::pyval list) (kw::kwargs) (n::nat).
        (Inr (PDict [(''results'', PList [PNone, PNone])]) :: error + pyval, Suc n)"
  let ?kw = "[''input'' \<mapsto> PList [PStr ''a'', PStr ''b'']]"
  have run: "Moderation_create ?adapt (\<lambda>kw. kw) () Inr (\<lambda>d. []) [] ?kw 0 =
      ((Inr (PDict [(''results'', PList [PNone, PNone])]), 1), [?kw])"
    by (simp add: Moderation_create_def expect_res_len_def kwargs_get_def)
  show ?thesis
    using moderation_cardinality [where adapt = ?adapt and fill = "\<lambda>kw. kw" and kwargs = ?kw
        and h = "()" and jl = Inr and jd = "\<lambda>d. []" and args = "[]" and w = 0, OF run] run
    by simp
qed

text \<open>
  The claim as stated fails: with a core that answers every call with one result, a
  batch of two inputs returns successfully with one result.
\<close>

theorem moderation_retry_result_unchecked:
  "fst (Moderation_create
     (\<lambda>h c u args kw w. (Inr (PDict [(''results'', PList [PNone])]), w))
     (\<lambda>kw. kw) () Inr (\<lambda>d. []) []
     [''input'' \<mapsto> PList [PStr ''a'', PStr ''b'']] ()) =
     (Inr (PDict [(''results'', PList [PNone])]), ())
   \<and> results_len (PDict [(''results'', PList [PNone])]) = Inr 1
   \<and> expect_res_len [''input'' \<mapsto> PList [PStr ''a'', PStr ''b'']] = 2"
  by (simp add: Moderation_create_def expect_res_len_def kwargs_get_def results_len_def Let_def)


section \<open>The image builder and the defaults of the entry point\<close>

lemma is_digit_other:
  "is_digit c \<Longrightarrow>
   \<not> is_space c \<and> c \<noteq> CHR ''x'' \<and> c \<noteq> CHR ''_'' \<and> c \<noteq> CHR ''-'' \<and> c \<noteq> CHR ''+''"
  by (auto simp: is_digit_def is_space_def)







lemma strip_id:
  assumes "s \<noteq> []" and "\<not> is_space (hd s)" and "\<not> is_space (last s)"
  shows "strip s = s"
proof -
  have a: "dropWhile is_space s = s"
    using assms(1,2) by (cases s) simp_all
  have b: "dropWhile is_space (rev s) = rev s"
    using assms(1,3) by (cases "rev s") (simp_all add: last_rev [symmetric] hd_rev)
  show ?thesis by (simp add: strip_def a b)
qed


lemma py_int_examples:
  "py_int '' 1_0 '' = Inr 10"
  "py_int ''-3'' = Inr (- 3)"
  "py_int ''+007'' = Inr 7"
  "py_int [CHR 0xA0, CHR ''3'', CHR 0x0B] = Inr 3"
  "py_int [CHR 0x1C, CHR ''3''] = Inl ValueError"
  "py_int ''1__0'' = Inl ValueError"
  "py_int ''- 3'' = Inl ValueError"
  "py_int ''3_'' = Inl ValueError"
  "py_int [] = Inl ValueError"
  by (simp_all add: py_int_def strip_def is_space_def digits_ok_def is_digit_def
      digits_value_def max_str_digits_def)

lemma py_int_too_many_digits:
  assumes "max_str_digits \<le> n"
  shows "py_int (CHR ''1'' # replicate n (CHR ''1'')) = Inl ValueError"
proof -
  have d: "is_digit (CHR ''1'')" by (simp add: is_digit_def)
  have l: "last (CHR ''1'' # replicate n (CHR ''1'')) = CHR ''1''"
    by (cases n) simp_all
  have s: "strip (CHR ''1'' # replicate n (CHR ''1'')) = CHR ''1'' # replicate n (CHR ''1'')"
    using is_digit_other [OF d] by (intro strip_id) (simp_all add: l)
  have "\<not> digits_ok (CHR ''1'' # replicate n (CHR ''1''))"
    using assms d by (simp add: digits_ok_def)
  then show ?thesis
    by (simp add: py_int_def s)
qed

















text \<open>
  C10. \<open>Image.create\<close> calls the orchestration core with a builder closed over the
  defaulted \<open>response_format\<close> and \<open>size\<close>, an extractor closed over the defaulted
  \<open>response_format\<close>, and keyword arguments that carry both defaulted values on to
  the live call. Hence a call without \<open>response_format\<close> is the call with
  \<open>response_format = "url"\<close>, and a call without \<open>size\<close> is the call with
  \<open>size = "256x256"\<close>.
\<close>

theorem image_create_defaults:
  "Image_create adapt h lib gb gu args kwargs w =
     adapt h
       (\<lambda>cache_data.
          construct_image_create_resp_from_cache lib cache_data
            (kwargs_get kwargs ''response_format'' (PStr ''url''))
            (kwargs_get kwargs ''size'' (PStr ''256x256'')))
       (Image_update_cache_callback gb gu (kwargs_get kwargs ''response_format'' (PStr ''url'')))
       args
       (kwargs(''response_format'' \<mapsto> kwargs_get kwargs ''response_format'' (PStr ''url''),
               ''size'' \<mapsto> kwargs_get kwargs ''size'' (PStr ''256x256'')))
       w
   \<and> (kwargs ''response_format'' = None \<longrightarrow>
        Image_create adapt h lib gb gu args kwargs w =
        Image_create adapt h lib gb gu args (kwargs(''response_format'' \<mapsto> PStr ''url'')) w)
   \<and> (kwargs ''size'' = None \<longrightarrow>
        Image_create adapt h lib gb gu args kwargs w =
        Image_create adapt h lib gb gu args (kwargs(''size'' \<mapsto> PStr ''256x256'')) w)"
proof -
  have m: "\<And>kw a b. (kw(''response_format'' := None, ''size'' := None))
            (''response_format'' \<mapsto> a, ''size'' \<mapsto> b) =
          kw(''response_format'' \<mapsto> a, ''size'' \<mapsto> b)"
    by (rule ext) simp
  have e: "\<And>kw. Image_create adapt h lib gb gu args kw w =
     adapt h
       (\<lambda>cache_data.
          construct_image_create_resp_from_cache lib cache_data
            (kwargs_get kw ''response_format'' (PStr ''url''))
            (kwargs_get kw ''size'' (PStr ''256x256'')))
       (Image_update_cache_callback gb gu (kwargs_get kw ''response_format'' (PStr ''url'')))
       args
       (kw(''response_format'' \<mapsto> kwargs_get kw ''response_format'' (PStr ''url''),
           ''size'' \<mapsto> kwargs_get kw ''size'' (PStr ''256x256'')))
       w"
    by (simp add: Image_create_def kwargs_pop_def kwargs_get_def m)
  have r: "kwargs ''response_format'' = None \<Longrightarrow>
      (kwargs(''response_format'' \<mapsto> PStr ''url''))
        (''response_format'' \<mapsto> PStr ''url'', ''size'' \<mapsto> b) =
      kwargs(''response_format'' \<mapsto> PStr ''url'', ''size'' \<mapsto> b)" for b
    by (rule ext) simp
  have s: "kwargs ''size'' = None \<Longrightarrow>
      (kwargs(''size'' \<mapsto> PStr ''256x256''))
        (''response_format'' \<mapsto> a, ''size'' \<mapsto> PStr ''256x256'') =
      kwargs(''response_format'' \<mapsto> a, ''size'' \<mapsto> PStr ''256x256'')" for a
    by (rule ext) simp
  show ?thesis
    by (simp add: e kwargs_get_def r s)
qed

theorem image_create_defaults_witness:
  "Image_create
     (\<lambda>h c u args kw w.
        (Inr (PList [kwargs_get kw ''response_format'' PNone, kwargs_get kw ''size'' PNone]), w))
     () \<lparr>b64decode = (\<lambda>v. case v of PStr s \<Rightarrow> Inr s | PBytes s \<Rightarrow> Inr s | _ \<Rightarrow> Inl TypeError),
      b64encode = (\<lambda>s. s), PILImage_open = Inr,
      img_size = (\<lambda>i. [int (length i), 1]),
      img_resize =
        (\<lambda>i ns. case ns of
                  [w', h'] \<Rightarrow>
                    if 0 \<le> w' \<and> h' = 1 then Inr (replicate (nat w') (CHR ''p''))
                    else Inl (External ''resize'')
                | _ \<Rightarrow> Inl (External ''resize'')),
      img_save_JPEG = Inr, abspath = (\<lambda>p. ''/srv/'' @ p)\<rparr>
     (\<lambda>d. PNone) (\<lambda>d. PNone) [] Map.empty () =
   (Inr (PList [PStr ''url'', PStr ''256x256'']), ())"
  using image_create_defaults
    [where adapt = "\<lambda>(h::unit) (c::pyval \<Rightarrow> world \<Rightarrow> (error + pyval) \<times> world)
          (u::pyval \<Rightarrow> stored \<Rightarrow> error + pyval \<times> stored) (args::pyval list) (kw::kwargs) (w::unit).
        (Inr (PList [kwargs_get kw ''response_format'' PNone, kwargs_get kw ''size'' PNone])
           :: error + pyval, w)"
      and h = "()" and lib = "\<lparr>b64decode = (\<lambda>v. case v of PStr s \<Rightarrow> Inr s | PBytes s \<Rightarrow> Inr s | _ \<Rightarrow> Inl TypeError),
      b64encode = (\<lambda>s. s), PILImage_open = Inr,
      img_size = (\<lambda>i. [int (length i), 1]),
      img_resize =
        (\<lambda>i ns. case ns of
                  [w', h'] \<Rightarrow>
                    if 0 \<le> w' \<and> h' = 1 then Inr (replicate (nat w') (CHR ''p''))
                    else Inl (External ''resize'')
                | _ \<Rightarrow> Inl (External ''resize'')),
      img_save_JPEG = Inr, abspath = (\<lambda>p. ''/srv/'' @ p)\<rparr>"
      and gb = "\<lambda>d. PNone" and gu = "\<lambda>d. PNone" and args = "[]" and kwargs = Map.empty
      and w = "()"]
  by (simp add: kwargs_get_def)

end
